theory Spec2Isabelle
  imports Main "HOL-Library.Word" "HOL-Library.Sublist"
begin

section \<open>JavaScript strings\<close>

text \<open>
  A JavaScript string is a sequence of 16-bit code units. String literals of the source
  are written through \<open>js\<close>, which maps every character of an ASCII literal to its code
  unit.
\<close>

type_synonym jschar = "16 word"
type_synonym jsstring = "jschar list"

definition js :: "string \<Rightarrow> jsstring" where
  "js cs = map of_char cs"

text \<open>
  \<open>String.prototype.trim\<close> removes leading and trailing white space and line
  terminators: TAB, LF, VT, FF, CR, SP, NBSP, ZWNBSP, LS, PS and the code points of the
  Unicode category Zs. All of them lie in the Basic Multilingual Plane, so the test is
  one on code units.
\<close>

definition isWhiteSpace :: "jschar \<Rightarrow> bool" where
  "isWhiteSpace c \<longleftrightarrow>
     c = 0x0009 \<or> c = 0x000A \<or> c = 0x000B \<or> c = 0x000C \<or> c = 0x000D \<or> c = 0x0020 \<or>
     c = 0x00A0 \<or> c = 0x1680 \<or> (0x2000 \<le> c \<and> c \<le> 0x200A) \<or> c = 0x2028 \<or>
     c = 0x2029 \<or> c = 0x202F \<or> c = 0x205F \<or> c = 0x3000 \<or> c = 0xFEFF"

definition trim :: "jsstring \<Rightarrow> jsstring" where
  "trim s = rev (dropWhile isWhiteSpace (rev (dropWhile isWhiteSpace s)))"

text \<open>\<open>Array.prototype.join\<close> on an array of strings.\<close>

fun join :: "jsstring \<Rightarrow> jsstring list \<Rightarrow> jsstring" where
  "join sep [] = []"
| "join sep [x] = x"
| "join sep (x # y # ys) = x @ sep @ join sep (y # ys)"

text \<open>
  Decimal rendering of an integer number, as \<open>String(n)\<close> and template interpolation
  produce it for integers below \<open>10^21\<close> in absolute value.
\<close>

fun digits :: "nat \<Rightarrow> jsstring" where
  "digits n = (if n < 10 then [of_nat (48 + n)]
               else digits (n div 10) @ [of_nat (48 + n mod 10)])"

declare digits.simps [simp del]

definition String_of_int :: "int \<Rightarrow> jsstring" where
  "String_of_int i = (if i < 0 then js ''-'' @ digits (nat (- i)) else digits (nat i))"

text \<open>\<open>String.prototype.padStart\<close> with a one-character filler.\<close>

definition padStart :: "nat \<Rightarrow> jschar \<Rightarrow> jsstring \<Rightarrow> jsstring" where
  "padStart n c s = replicate (n - length s) c @ s"

section \<open>JavaScript dates\<close>

text \<open>
  The time value of a \<open>Date\<close> is a number of milliseconds since 1970-01-01T00:00Z, or
  NaN; NaN is \<open>None\<close> here. The functions below are the abstract operations of the
  language definition that \<open>Date.UTC\<close>, \<open>getUTCDay\<close>, \<open>getUTCDate\<close>, \<open>setUTCDate\<close>
  and \<open>getUTCFullYear\<close> are made of.
\<close>

definition msPerDay :: int where
  "msPerDay = 86400000"

definition Day :: "int \<Rightarrow> int" where
  "Day t = t div msPerDay"

definition TimeWithinDay :: "int \<Rightarrow> int" where
  "TimeWithinDay t = t mod msPerDay"

definition DayFromYear :: "int \<Rightarrow> int" where
  "DayFromYear y =
     365 * (y - 1970) + (y - 1969) div 4 - (y - 1901) div 100 + (y - 1601) div 400"

definition DaysInYear :: "int \<Rightarrow> int" where
  "DaysInYear y = (if y mod 4 \<noteq> 0 then 365 else if y mod 100 \<noteq> 0 then 366
                   else if y mod 400 \<noteq> 0 then 365 else 366)"

text \<open>
  The year of a day number is the largest \<open>y\<close> with \<open>DayFromYear y \<le> d\<close>. The mean
  length of a year, 146097 / 400 days, gives an estimate that is off by at most one.
\<close>

definition YearFromDay :: "int \<Rightarrow> int" where
  "YearFromDay d =
     (let e = 1970 + (d * 400) div 146097
      in if DayFromYear (e + 1) \<le> d then e + 1
         else if DayFromYear e \<le> d then e else e - 1)"

definition YearFromTime :: "int \<Rightarrow> int" where
  "YearFromTime t = YearFromDay (Day t)"

definition DayWithinYear :: "int \<Rightarrow> int" where
  "DayWithinYear t = Day t - DayFromYear (YearFromTime t)"

definition InLeapYear :: "int \<Rightarrow> int" where
  "InLeapYear t = (if DaysInYear (YearFromTime t) = 366 then 1 else 0)"

text \<open>Day number within the year on which month \<open>m\<close> (0 to 11) starts; \<open>l\<close> is 1 in a leap year.\<close>

definition monthStart :: "int \<Rightarrow> int \<Rightarrow> int" where
  "monthStart l m =
     (if m = 0 then 0 else if m = 1 then 31 else if m = 2 then 59 + l
      else if m = 3 then 90 + l else if m = 4 then 120 + l else if m = 5 then 151 + l
      else if m = 6 then 181 + l else if m = 7 then 212 + l else if m = 8 then 243 + l
      else if m = 9 then 273 + l else if m = 10 then 304 + l else 334 + l)"

definition MonthFromTime :: "int \<Rightarrow> int" where
  "MonthFromTime t =
     (let d = DayWithinYear t; l = InLeapYear t
      in if d < 31 then 0 else if d < 59 + l then 1 else if d < 90 + l then 2
         else if d < 120 + l then 3 else if d < 151 + l then 4 else if d < 181 + l then 5
         else if d < 212 + l then 6 else if d < 243 + l then 7 else if d < 273 + l then 8
         else if d < 304 + l then 9 else if d < 334 + l then 10 else 11)"

definition DateFromTime :: "int \<Rightarrow> int" where
  "DateFromTime t = DayWithinYear t - monthStart (InLeapYear t) (MonthFromTime t) + 1"

definition WeekDay :: "int \<Rightarrow> int" where
  "WeekDay t = (Day t + 4) mod 7"

definition MakeDay :: "int \<Rightarrow> int \<Rightarrow> int \<Rightarrow> int" where
  "MakeDay year month dt =
     (let ym = year + month div 12; mn = month mod 12
      in DayFromYear ym + monthStart (if DaysInYear ym = 366 then 1 else 0) mn + dt - 1)"

definition MakeDate :: "int \<Rightarrow> int \<Rightarrow> int" where
  "MakeDate day time = day * msPerDay + time"

definition TimeClip :: "int \<Rightarrow> int option" where
  "TimeClip t = (if \<bar>t\<bar> > 8640000000000000 then None else Some t)"

text \<open>\<open>Date.UTC(year, month, date)\<close>: a year from 0 to 99 stands for 1900 + year.\<close>

definition Date_UTC :: "int \<Rightarrow> int \<Rightarrow> int \<Rightarrow> int option" where
  "Date_UTC year month dt =
     (let yr = (if 0 \<le> year \<and> year \<le> 99 then 1900 + year else year)
      in TimeClip (MakeDate (MakeDay yr month dt) 0))"

definition getUTCDay :: "int \<Rightarrow> int" where
  "getUTCDay t = WeekDay t"

definition getUTCDate :: "int \<Rightarrow> int" where
  "getUTCDate t = DateFromTime t"

definition getUTCFullYear :: "int \<Rightarrow> int" where
  "getUTCFullYear t = YearFromTime t"

definition setUTCDate :: "int \<Rightarrow> int \<Rightarrow> int option" where
  "setUTCDate t dt =
     TimeClip (MakeDate (MakeDay (YearFromTime t) (MonthFromTime t) dt) (TimeWithinDay t))"

section \<open>The week key\<close>

text \<open>
  \<open>getWeekKey\<close> reads its argument only through \<open>getFullYear\<close>, \<open>getMonth\<close> and
  \<open>getDate\<close>, the calendar date in local time; that is the input of the model. Months
  count from 0.
\<close>

record calendarDate =
  fullYear :: int
  month :: int
  date :: int

text \<open>
  \<open>Math.ceil((((tempDate - yearStart) / 86400000) + 1) / 7)\<close>: both time values are
  midnights, so the first quotient is an integer \<open>n\<close>, and the ceiling of \<open>(n + 1) / 7\<close>
  is \<open>- ((- (n + 1)) div 7)\<close>. A NaN time value makes both numbers of the result NaN.
\<close>

definition getWeekKey :: "calendarDate \<Rightarrow> jsstring" where
  "getWeekKey d =
     (case Date_UTC (fullYear d) (month d) (date d) of
        None \<Rightarrow> js ''NaN-WNaN''
      | Some tempDate0 \<Rightarrow>
          let dayNum = (if getUTCDay tempDate0 = 0 then 7 else getUTCDay tempDate0) in
          (case setUTCDate tempDate0 (getUTCDate tempDate0 + 4 - dayNum) of
             None \<Rightarrow> js ''NaN-WNaN''
           | Some tempDate \<Rightarrow>
               (case Date_UTC (getUTCFullYear tempDate) 0 1 of
                  None \<Rightarrow> String_of_int (getUTCFullYear tempDate) @ js ''-WNaN''
                | Some yearStart \<Rightarrow>
                    let weekNo = - ((- ((tempDate - yearStart) div 86400000 + 1)) div 7)
                    in String_of_int (getUTCFullYear tempDate) @ js ''-W'' @
                       padStart 2 (of_char CHR ''0'') (String_of_int weekNo))))"

section \<open>Documents, state and environment\<close>

text \<open>
  The documents handed to \<open>addDoc\<close>. Every one of them carries
  \<open>createdAt: serverTimestamp()\<close>, a sentinel the store replaces.
\<close>

datatype fieldValue = serverTimestamp

datatype doc =
    TeamDoc jsstring fieldValue
  | WeeklyInputDoc jsstring jsstring jsstring fieldValue
  | SummaryDoc jsstring jsstring fieldValue

text \<open>
  \<open>TeamDoc name createdAt\<close>, \<open>WeeklyInputDoc memberName update weekKey createdAt\<close>
  and \<open>SummaryDoc weekKey content createdAt\<close>. A collection is named by its path
  segments.
\<close>

type_synonym path = "jsstring list"

record team =
  team_id :: jsstring
  team_name :: jsstring

record item =
  item_id :: jsstring
  item_memberName :: jsstring
  item_update :: jsstring
  item_weekKey :: jsstring

record summary =
  summary_id :: jsstring
  summary_weekKey :: jsstring
  summary_content :: jsstring

text \<open>The nine state variables of the component \<open>App\<close>.\<close>

record state =
  teamName :: jsstring
  activeTeam :: "team option"
  weekKey :: jsstring
  memberName :: jsstring
  update :: jsstring
  entries :: "item list"
  summaries :: "summary list"
  loadingAi :: bool
  error :: jsstring

definition initialState :: "calendarDate \<Rightarrow> state" where
  "initialState today =
     \<lparr>teamName = [], activeTeam = None, weekKey = getWeekKey today, memberName = [],
      update = [], entries = [], summaries = [], loadingAi = False, error = []\<rparr>"

text \<open>
  What the handlers reach outside the component. A rejected promise or a thrown
  \<open>Error\<close> is its message, on the left of a sum.
  \<^item> \<open>firebaseConfigError\<close> and \<open>db\<close> (is the handle non-null) come from the module
    that sets the store up;
  \<^item> \<open>addDoc\<close> resolves with the identifier of the new document or rejects;
  \<^item> \<open>apiKey\<close> is the environment value, \<open>None\<close> when undefined;
  \<^item> \<open>fetch\<close> takes the URL and the prompt placed in the request body.
  A response gives its status flag, the outcome of \<open>text()\<close> and the outcome of
  \<open>json()\<close> followed by the lookup \<open>candidates[0].content.parts[0].text\<close>
  (\<open>None\<close> when some step of the lookup is null or undefined).
\<close>

record response =
  response_ok :: bool
  response_text :: "jsstring + jsstring"
  response_json :: "jsstring + jsstring option"

datatype fetch_result = Rejected jsstring | Resolved response

record env =
  firebaseConfigError :: jsstring
  db :: bool
  addDoc :: "path \<Rightarrow> doc \<Rightarrow> jsstring + jsstring"
  apiKey :: "jsstring option"
  fetch :: "jsstring \<Rightarrow> jsstring \<Rightarrow> fetch_result"

text \<open>
  The result of running a handler to its end: the state after all its updates, the
  \<open>addDoc\<close> requests it issued in order, and the message of the error that left the
  handler uncaught, if one did. The model runs one handler at a time, with no other
  event between its steps.
\<close>

record outcome =
  st :: state
  writes :: "(path \<times> doc) list"
  uncaught :: "jsstring option"

section \<open>The filtered view\<close>

text \<open>
  \<open>Array.prototype.filter\<close>: the elements are visited by ascending index and those
  that pass the test are appended to the result.
\<close>

fun filter_arr :: "('a \<Rightarrow> bool) \<Rightarrow> 'a list \<Rightarrow> 'a list \<Rightarrow> 'a list" where
  "filter_arr p [] acc = acc"
| "filter_arr p (x # xs) acc = filter_arr p xs (if p x then acc @ [x] else acc)"

definition weekEntries :: "state \<Rightarrow> item list" where
  "weekEntries s = filter_arr (\<lambda>item. item_weekKey item = weekKey s) (entries s) []"

section \<open>The summary request\<close>

definition nl :: jsstring where
  "nl = [0x000A]"

definition bullet :: "item \<Rightarrow> jsstring" where
  "bullet item = js ''- '' @ item_memberName item @ js '': '' @ item_update item"

definition prompt :: "jsstring \<Rightarrow> jsstring \<Rightarrow> item list \<Rightarrow> jsstring" where
  "prompt tname wkey updates =
     js ''You are a project manager assistant. Summarize these weekly updates for team '' @
     tname @ js '' in concise bullet points with:'' @ nl @ js ''1) Wins'' @ nl @
     js ''2) Risks'' @ nl @ js ''3) Next week focus'' @ nl @ nl @ js ''Week: '' @ wkey @
     nl @ nl @ js ''Updates:'' @ nl @ join nl (map bullet updates)"

definition endpoint :: jsstring where
  "endpoint = js ''https://generativelanguage.googleapis.com/v1beta/models/gemini-1.5-flash:generateContent?key=''"

definition createAiSummary :: "env \<Rightarrow> jsstring \<Rightarrow> jsstring \<Rightarrow> item list \<Rightarrow> jsstring + jsstring" where
  "createAiSummary e tname wkey updates =
     (case apiKey e of
        None \<Rightarrow> Inl (js ''Missing VITE_GEMINI_API_KEY in .env file.'')
      | Some k \<Rightarrow>
          if k = [] then Inl (js ''Missing VITE_GEMINI_API_KEY in .env file.'')
          else (case fetch e (endpoint @ k) (prompt tname wkey updates) of
                  Rejected m \<Rightarrow> Inl m
                | Resolved r \<Rightarrow>
                    if \<not> response_ok r
                    then (case response_text r of
                            Inl m \<Rightarrow> Inl m
                          | Inr message \<Rightarrow> Inl (js ''AI request failed: '' @ message))
                    else (case response_json r of
                            Inl m \<Rightarrow> Inl m
                          | Inr None \<Rightarrow> Inr (js ''No summary returned.'')
                          | Inr (Some t) \<Rightarrow> Inr t)))"

section \<open>The three handlers\<close>

text \<open>\<open>firebaseConfigError || 'Firebase is not configured.'\<close>\<close>

definition notConfigured :: "env \<Rightarrow> jsstring" where
  "notConfigured e =
     (if firebaseConfigError e \<noteq> [] then firebaseConfigError e
      else js ''Firebase is not configured.'')"

definition handleCreateTeam :: "env \<Rightarrow> state \<Rightarrow> outcome" where
  "handleCreateTeam e s =
     (let s1 = s\<lparr>error := []\<rparr> in
      if trim (teamName s) = []
      then \<lparr>st = s1\<lparr>error := js ''Team name is required.''\<rparr>, writes = [], uncaught = None\<rparr>
      else if \<not> db e
      then \<lparr>st = s1\<lparr>error := notConfigured e\<rparr>, writes = [], uncaught = None\<rparr>
      else
        let p = [js ''teams'']; d = TeamDoc (trim (teamName s)) serverTimestamp in
        (case addDoc e p d of
           Inl m \<Rightarrow> \<lparr>st = s1, writes = [(p, d)], uncaught = Some m\<rparr>
         | Inr ref_id \<Rightarrow>
             \<lparr>st = s1\<lparr>activeTeam := Some \<lparr>team_id = ref_id, team_name = trim (teamName s)\<rparr>,
                      teamName := []\<rparr>,
              writes = [(p, d)], uncaught = None\<rparr>))"

definition handleAddEntry :: "env \<Rightarrow> state \<Rightarrow> outcome" where
  "handleAddEntry e s =
     (let s1 = s\<lparr>error := []\<rparr> in
      case activeTeam s of
        None \<Rightarrow> \<lparr>st = s1\<lparr>error := js ''Create a team first.''\<rparr>, writes = [], uncaught = None\<rparr>
      | Some t \<Rightarrow>
          if \<not> db e
          then \<lparr>st = s1\<lparr>error := notConfigured e\<rparr>, writes = [], uncaught = None\<rparr>
          else if trim (memberName s) = [] \<or> trim (update s) = []
          then \<lparr>st = s1\<lparr>error := js ''Member name and update are required.''\<rparr>,
                writes = [], uncaught = None\<rparr>
          else
            let p = [js ''teams'', team_id t, js ''weeklyInputs''];
                d = WeeklyInputDoc (trim (memberName s)) (trim (update s)) (weekKey s)
                      serverTimestamp in
            (case addDoc e p d of
               Inl m \<Rightarrow> \<lparr>st = s1, writes = [(p, d)], uncaught = Some m\<rparr>
             | Inr ref_id \<Rightarrow> \<lparr>st = s1\<lparr>update := []\<rparr>, writes = [(p, d)], uncaught = None\<rparr>))"

definition handleGenerateSummary :: "env \<Rightarrow> state \<Rightarrow> outcome" where
  "handleGenerateSummary e s =
     (let s1 = s\<lparr>error := []\<rparr> in
      case activeTeam s of
        None \<Rightarrow> \<lparr>st = s1\<lparr>error := js ''Create a team first.''\<rparr>, writes = [], uncaught = None\<rparr>
      | Some t \<Rightarrow>
          if \<not> db e
          then \<lparr>st = s1\<lparr>error := notConfigured e\<rparr>, writes = [], uncaught = None\<rparr>
          else if length (weekEntries s) = 0
          then \<lparr>st = s1\<lparr>error := js ''Add at least one weekly update before generating summary.''\<rparr>,
                writes = [], uncaught = None\<rparr>
          else
            let s2 = s1\<lparr>loadingAi := True\<rparr> in
            (case createAiSummary e (team_name t) (weekKey s) (weekEntries s) of
               Inl m \<Rightarrow> \<lparr>st = s2\<lparr>error := m, loadingAi := False\<rparr>, writes = [], uncaught = None\<rparr>
             | Inr summaryText \<Rightarrow>
                 let p = [js ''teams'', team_id t, js ''summaries''];
                     d = SummaryDoc (weekKey s) summaryText serverTimestamp in
                 (case addDoc e p d of
                    Inl m \<Rightarrow> \<lparr>st = s2\<lparr>error := m, loadingAi := False\<rparr>, writes = [(p, d)],
                              uncaught = None\<rparr>
                  | Inr ref_id \<Rightarrow> \<lparr>st = s2\<lparr>loadingAi := False\<rparr>, writes = [(p, d)],
                                   uncaught = None\<rparr>)))"

section \<open>Sample inputs\<close>

text \<open>
  A configured environment whose \<open>addDoc\<close> always answers \<open>w\<close> and whose \<open>fetch\<close>
  always answers \<open>f\<close>, one cached entry, and a state built around the form fields;
  the state starts with an error left by an earlier operation.
\<close>

definition sampleEnv :: "jsstring + jsstring \<Rightarrow> jsstring option \<Rightarrow> fetch_result \<Rightarrow> env" where
  "sampleEnv w k f =
     \<lparr>firebaseConfigError = [], db = True, addDoc = (\<lambda>p d. w), apiKey = k,
      fetch = (\<lambda>u b. f)\<rparr>"

definition sampleTeam :: team where
  "sampleTeam = \<lparr>team_id = js ''t1'', team_name = js ''Squad''\<rparr>"

definition sampleItem :: item where
  "sampleItem =
     \<lparr>item_id = js ''i1'', item_memberName = js ''Ana'', item_update = js ''Shipped X'',
      item_weekKey = js ''2026-W09''\<rparr>"

definition sampleState :: "team option \<Rightarrow> jsstring \<Rightarrow> jsstring \<Rightarrow> jsstring \<Rightarrow> jsstring \<Rightarrow> state" where
  "sampleState a tn wk mn up =
     \<lparr>teamName = tn, activeTeam = a, weekKey = wk, memberName = mn, update = up,
      entries = [sampleItem], summaries = [], loadingAi = False, error = js ''Old error.''\<rparr>"

section \<open>Facts about the date arithmetic\<close>

text \<open>
  \<open>YearFromDay\<close> returns the year the language definition asks for: the day lies in
  the year returned, and years start on increasing days, so that year is the largest one
  starting on or before the day.
\<close>

lemma DayFromYear_bounds:
  "146097 * (y - 1970) - 506 \<le> 400 * DayFromYear y"
  "400 * DayFromYear y \<le> 146097 * (y - 1970) + 589"
proof -
  define a where "a = (y - 1969) div 4"
  define b where "b = (y - 1901) div 100"
  define c where "c = (y - 1601) div 400"
  have a: "4 * a \<le> y - 1969" "y - 1969 \<le> 4 * a + 3"
    unfolding a_def by linarith+
  have b: "100 * b \<le> y - 1901" "y - 1901 \<le> 100 * b + 99"
    unfolding b_def by linarith+
  have c: "400 * c \<le> y - 1601" "y - 1601 \<le> 400 * c + 399"
    unfolding c_def by linarith+
  have D: "DayFromYear y = 365 * (y - 1970) + a - b + c"
    by (simp add: DayFromYear_def a_def b_def c_def)
  show "146097 * (y - 1970) - 506 \<le> 400 * DayFromYear y"
    using a b c unfolding D by simp
  show "400 * DayFromYear y \<le> 146097 * (y - 1970) + 589"
    using a b c unfolding D by simp
qed

lemma div_pred_bounds:
  fixes x n :: int
  assumes "0 < n"
  shows "(x - 1) div n \<le> x div n" "x div n \<le> (x - 1) div n + 1"
proof -
  show "(x - 1) div n \<le> x div n"
    using assms by (simp add: zdiv_mono1)
  have "x div n \<le> (x - 1 + n) div n"
    using assms by (intro zdiv_mono1) simp_all
  also have "\<dots> = (x - 1) div n + 1"
    using assms div_add_self2 [of n "x - 1"] by simp
  finally show "x div n \<le> (x - 1) div n + 1" .
qed

lemma DayFromYear_pred: "DayFromYear (y - 1) < DayFromYear y"
proof -
  have a: "(y - 1969 - 1) div 4 \<le> (y - 1969) div 4"
    by (rule div_pred_bounds) simp
  have b: "(y - 1901) div 100 \<le> (y - 1901 - 1) div 100 + 1"
    by (rule div_pred_bounds) simp
  have c: "(y - 1601 - 1) div 400 \<le> (y - 1601) div 400"
    by (rule div_pred_bounds) simp
  have "DayFromYear (y - 1) =
      365 * (y - 1970) - 365 + (y - 1969 - 1) div 4 - (y - 1901 - 1) div 100 +
      (y - 1601 - 1) div 400"
    by (simp add: DayFromYear_def algebra_simps)
  then show ?thesis
    using a b c by (simp add: DayFromYear_def)
qed

lemma DayFromYear_mono: "y \<le> z \<Longrightarrow> DayFromYear y \<le> DayFromYear z"
proof (induction rule: int_le_induct [where k = z and i = y, consumes 1])
  case base
  show ?case by simp
next
  case (step i)
  then show ?case using DayFromYear_pred [of i] by simp
qed

lemma YearFromDay_correct:
  "DayFromYear (YearFromDay d) \<le> d \<and> d < DayFromYear (YearFromDay d + 1)"
proof -
  define q where "q = (d * 400) div 146097"
  have q: "146097 * q \<le> 400 * d" "400 * d < 146097 * q + 146097"
    unfolding q_def by linarith+
  have lo: "DayFromYear (1970 + q - 1) \<le> d"
    using DayFromYear_bounds(2) [of "1970 + q - 1"] q by simp
  have hi: "d < DayFromYear (1970 + q + 2)"
    using DayFromYear_bounds(1) [of "1970 + q + 2"] q by simp
  have e: "1970 + q + 1 + 1 = 1970 + q + 2" by simp
  show ?thesis
    using lo hi unfolding YearFromDay_def q_def [symmetric] Let_def
    by (auto simp: e)
qed

section \<open>Facts about strings and arrays\<close>

lemma filter_arr_acc: "filter_arr p xs acc = acc @ filter p xs"
  by (induction xs arbitrary: acc) simp_all

lemma weekEntries_filter:
  "weekEntries s = filter (\<lambda>item. item_weekKey item = weekKey s) (entries s)"
  by (simp add: weekEntries_def filter_arr_acc)

lemma join_append:
  "join sep (xs @ ys) = join sep xs @ (if xs = [] \<or> ys = [] then [] else sep) @ join sep ys"
proof (induction sep xs rule: join.induct)
  case (1 sep)
  show ?case by simp
next
  case (2 sep x)
  show ?case by (cases ys) simp_all
next
  case (3 sep x y ys')
  then show ?case by simp
qed

lemma join_Cons: "join sep (x # ys) = x @ (if ys = [] then [] else sep) @ join sep ys"
  by (cases ys) simp_all

lemmas sample_defs = sampleEnv_def sampleTeam_def sampleItem_def sampleState_def

lemma trim_Nil: "trim [] = []"
  by (simp add: trim_def)

lemma dropWhile_all_Nil:
  assumes "\<forall>x \<in> set (dropWhile P xs). P x"
  shows "dropWhile P xs = []"
proof (rule ccontr)
  assume ne: "dropWhile P xs \<noteq> []"
  then have "\<not> P (hd (dropWhile P xs))"
    by (rule hd_dropWhile)
  moreover have "hd (dropWhile P xs) \<in> set (dropWhile P xs)"
    using ne by simp
  ultimately show False
    using assms by blast
qed

lemma trim_eq_Nil_iff: "trim s = [] \<longleftrightarrow> (\<forall>c \<in> set s. isWhiteSpace c)"
proof
  assume "trim s = []"
  then have "\<forall>x \<in> set (dropWhile isWhiteSpace s). isWhiteSpace x"
    by (simp add: trim_def dropWhile_eq_Nil_conv)
  then have "dropWhile isWhiteSpace s = []"
    by (rule dropWhile_all_Nil)
  then show "\<forall>c \<in> set s. isWhiteSpace c"
    by (simp add: dropWhile_eq_Nil_conv)
next
  assume "\<forall>c \<in> set s. isWhiteSpace c"
  then have "dropWhile isWhiteSpace s = []"
    by (simp add: dropWhile_eq_Nil_conv)
  then show "trim s = []"
    unfolding trim_def by (simp only: rev.simps dropWhile.simps)
qed

lemma trim_sublist: "sublist (trim s) s"
proof -
  have "s = takeWhile isWhiteSpace s @ dropWhile isWhiteSpace s"
    by simp
  moreover have "rev (dropWhile isWhiteSpace s) =
      takeWhile isWhiteSpace (rev (dropWhile isWhiteSpace s)) @
      dropWhile isWhiteSpace (rev (dropWhile isWhiteSpace s))"
    by simp
  then have "dropWhile isWhiteSpace s =
      trim s @ rev (takeWhile isWhiteSpace (rev (dropWhile isWhiteSpace s)))"
    unfolding trim_def by (metis rev_append rev_rev_ident)
  ultimately have "s = takeWhile isWhiteSpace s @ trim s @
      rev (takeWhile isWhiteSpace (rev (dropWhile isWhiteSpace s)))"
    by simp
  then show ?thesis
    unfolding sublist_def by blast
qed

lemma trim_ends:
  assumes "trim s \<noteq> []"
  shows "\<not> isWhiteSpace (hd (trim s))" "\<not> isWhiteSpace (last (trim s))"
proof -
  let ?d = "dropWhile isWhiteSpace s"
  let ?r = "dropWhile isWhiteSpace (rev ?d)"
  have r: "?r \<noteq> []"
    using assms by (simp add: trim_def del: dropWhile_eq_Nil_conv)
  then have "\<not> isWhiteSpace (hd ?r)"
    by (rule hd_dropWhile)
  then show "\<not> isWhiteSpace (last (trim s))"
    using r by (simp add: trim_def last_rev del: dropWhile_eq_Nil_conv)
  have d: "?d \<noteq> []"
  proof
    assume "?d = []"
    then have "?r = []"
      by (simp only: rev.simps dropWhile.simps)
    with r show False by contradiction
  qed
  then have h: "\<not> isWhiteSpace (hd ?d)"
    by (rule hd_dropWhile)
  obtain zs where zs: "rev ?d = zs @ ?r" "\<forall>z \<in> set zs. isWhiteSpace z"
    by (metis takeWhile_dropWhile_id set_takeWhileD)
  then have "?d = rev ?r @ rev zs"
    by (metis rev_append rev_rev_ident)
  then have "hd ?d = hd (rev ?r)"
    using r by (metis hd_append2 rev_is_Nil_conv)
  then show "\<not> isWhiteSpace (hd (trim s))"
    using h by (simp add: trim_def)
qed

section \<open>Facts about the handlers\<close>

lemma handleGenerateSummary_catches: "uncaught (handleGenerateSummary e s) = None"
  by (simp add: handleGenerateSummary_def Let_def split: option.splits sum.splits)

lemma createAiSummary_failures:
  "apiKey e = None \<or> apiKey e = Some [] \<Longrightarrow>
     createAiSummary e tname wkey us = Inl (js ''Missing VITE_GEMINI_API_KEY in .env file.'')"
  "apiKey e = Some k \<Longrightarrow> k \<noteq> [] \<Longrightarrow> fetch e (endpoint @ k) (prompt tname wkey us) = Rejected m \<Longrightarrow>
     createAiSummary e tname wkey us = Inl m"
  "apiKey e = Some k \<Longrightarrow> k \<noteq> [] \<Longrightarrow> fetch e (endpoint @ k) (prompt tname wkey us) = Resolved r \<Longrightarrow>
     \<not> response_ok r \<Longrightarrow> response_text r = Inr body \<Longrightarrow>
     createAiSummary e tname wkey us = Inl (js ''AI request failed: '' @ body)"
  by (auto simp: createAiSummary_def)

section \<open>The week key of two known dates\<close>

text \<open>
  Claim C1. The week key of 2 March 2026 is the string 2026-W10. The week key of
  31 December 2018 is 2019-W01: its first four characters are the ISO week-year 2019,
  not the calendar year 2018. Both dates are Mondays (day 1 of the week). Months count
  from 0, so March is 2 and December is 11.
\<close>

theorem getWeekKey_known_dates:
  "getWeekKey \<lparr>fullYear = 2026, month = 2, date = 2\<rparr> = js ''2026-W10'' \<and>
   getWeekKey \<lparr>fullYear = 2018, month = 11, date = 31\<rparr> = js ''2019-W01'' \<and>
   take 4 (getWeekKey \<lparr>fullYear = 2018, month = 11, date = 31\<rparr>) = String_of_int 2019 \<and>
   map_option getUTCDay (Date_UTC 2026 2 2) = Some 1 \<and>
   map_option getUTCDay (Date_UTC 2018 11 31) = Some 1"
  by code_simp

section \<open>The filtered view is the matching entries in order\<close>

text \<open>
  Claim C6. For every cached entry list and selected week key, \<open>weekEntries\<close> is exactly
  the entries whose \<open>weekKey\<close> equals the selected one, in the order of the cached list:
  it is the filtered list, a subsequence of the cache, and holds the matching entries
  and no others. It is a function of the state alone: it takes no environment, so it
  reaches neither the store nor the network.
\<close>

theorem weekEntries_exact:
  "weekEntries s = filter (\<lambda>item. item_weekKey item = weekKey s) (entries s) \<and>
   subseq (weekEntries s) (entries s) \<and>
   set (weekEntries s) = {item. item \<in> set (entries s) \<and> item_weekKey item = weekKey s}"
  by (auto simp add: weekEntries_filter)

section \<open>The prompt holds the week key and one line per update, in order\<close>

text \<open>
  Claim C7. For every team name, week key and list of updates: the prompt ends with the
  bulleted lines of the updates joined by line feeds; the line of an entry is
  \<open>- memberName: update\<close> and stands after the prompt of the entries before it and
  before the lines of the entries after it, so the lines follow the caller's order; the
  week key occurs in the prompt. For team Squad, week 2026-W09 and the single entry of
  Ana, "Shipped X", the prompt contains \<open>- Ana: Shipped X\<close> and \<open>2026-W09\<close>.
\<close>

theorem prompt_embeds_updates:
  "prompt tname wkey (xs @ x # ys) =
     prompt tname wkey xs @ (if xs = [] then [] else nl) @
     (js ''- '' @ item_memberName x @ js '': '' @ item_update x) @
     (if ys = [] then [] else nl) @ join nl (map bullet ys) \<and>
   suffix (join nl (map bullet updates)) (prompt tname wkey updates) \<and>
   sublist wkey (prompt tname wkey updates) \<and>
   sublist (js ''- Ana: Shipped X'')
     (prompt (js ''Squad'') (js ''2026-W09'')
        [\<lparr>item_id = i, item_memberName = js ''Ana'', item_update = js ''Shipped X'',
          item_weekKey = js ''2026-W09''\<rparr>]) \<and>
   sublist (js ''2026-W09'')
     (prompt (js ''Squad'') (js ''2026-W09'')
        [\<lparr>item_id = i, item_memberName = js ''Ana'', item_update = js ''Shipped X'',
          item_weekKey = js ''2026-W09''\<rparr>])"
proof -
  have 1: "prompt tname wkey (xs @ x # ys) =
     prompt tname wkey xs @ (if xs = [] then [] else nl) @
     (js ''- '' @ item_memberName x @ js '': '' @ item_update x) @
     (if ys = [] then [] else nl) @ join nl (map bullet ys)"
    by (simp add: prompt_def join_append join_Cons bullet_def)
  have 2: "suffix (join nl (map bullet updates)) (prompt tname wkey updates)"
    for updates tname wkey
    unfolding prompt_def suffix_def by (simp only: append_assoc [symmetric]) blast
  have 3: "sublist wkey (prompt tname wkey updates)" for wkey tname updates
  proof -
    define rest where "rest = nl @ nl @ js ''Updates:'' @ nl @ join nl (map bullet updates)"
    have "\<exists>front. prompt tname wkey updates = front @ wkey @ rest"
      unfolding prompt_def rest_def by (simp only: append_assoc [symmetric]) blast
    then show ?thesis
      unfolding sublist_def by blast
  qed
  have b: "bullet \<lparr>item_id = i, item_memberName = js ''Ana'', item_update = js ''Shipped X'',
          item_weekKey = js ''2026-W09''\<rparr> = js ''- Ana: Shipped X''"
    by (simp add: bullet_def js_def)
  have 4: "sublist (js ''- Ana: Shipped X'')
     (prompt (js ''Squad'') (js ''2026-W09'')
        [\<lparr>item_id = i, item_memberName = js ''Ana'', item_update = js ''Shipped X'',
          item_weekKey = js ''2026-W09''\<rparr>])"
    using 2 [of "[\<lparr>item_id = i, item_memberName = js ''Ana'', item_update = js ''Shipped X'',
          item_weekKey = js ''2026-W09''\<rparr>]" "js ''Squad''" "js ''2026-W09''"]
    by (simp add: b)
  show ?thesis using 1 2 3 4 by blast
qed

section \<open>A rejected store write leaves two handlers uncaught\<close>

text \<open>
  Claim C2. The claim says that no operation lets a failure of a store write escape:
  it is caught and its message put into the error slot. \<open>handleGenerateSummary\<close> does
  so (\<open>handleGenerateSummary_catches\<close>). \<open>handleCreateTeam\<close> and \<open>handleAddEntry\<close>
  await \<open>addDoc\<close> outside any \<open>try\<close>: with a valid form and a store that rejects the
  write with "permission-denied", the rejection leaves each of them uncaught, and the
  error slot stays empty.
\<close>

theorem rejected_write_escapes:
  "uncaught (handleCreateTeam (sampleEnv (Inl (js ''permission-denied'')) None (Rejected []))
      (sampleState None (js ''Squad'') (js ''2026-W09'') [] []))
     = Some (js ''permission-denied'') \<and>
   error (st (handleCreateTeam (sampleEnv (Inl (js ''permission-denied'')) None (Rejected []))
      (sampleState None (js ''Squad'') (js ''2026-W09'') [] []))) = [] \<and>
   uncaught (handleAddEntry (sampleEnv (Inl (js ''permission-denied'')) None (Rejected []))
      (sampleState (Some sampleTeam) [] (js ''2026-W09'') (js ''Ana'') (js ''Shipped X'')))
     = Some (js ''permission-denied'') \<and>
   error (st (handleAddEntry (sampleEnv (Inl (js ''permission-denied'')) None (Rejected []))
      (sampleState (Some sampleTeam) [] (js ''2026-W09'') (js ''Ana'') (js ''Shipped X'')))) = []"
  by (simp add: handleCreateTeam_def handleAddEntry_def sample_defs Let_def trim_def js_def isWhiteSpace_def)

section \<open>A failed model call writes nothing and clears the loading flag\<close>

text \<open>
  Claim C3. When \<open>handleGenerateSummary\<close> reaches the model call (a team is active, the
  store is configured, the week has entries), it ends with the loading flag false and
  nothing uncaught, whether the call succeeds or fails. When the call fails with message
  \<open>m\<close>, no \<open>addDoc\<close> request is issued and the error slot holds \<open>m\<close>; for a missing
  credential the message is the fixed one, for a response that is not ok it is
  "AI request failed: " followed by the response body, and for a rejected request it is
  the message of the rejection.
\<close>

theorem generateSummary_failure_isolation:
  assumes "activeTeam s = Some t" and "db e" and "weekEntries s \<noteq> []"
  shows "\<not> loadingAi (st (handleGenerateSummary e s)) \<and>
     uncaught (handleGenerateSummary e s) = None \<and>
     (\<forall>m. createAiSummary e (team_name t) (weekKey s) (weekEntries s) = Inl m \<longrightarrow>
        writes (handleGenerateSummary e s) = [] \<and>
        error (st (handleGenerateSummary e s)) = m) \<and>
     (apiKey e = None \<or> apiKey e = Some [] \<longrightarrow>
        writes (handleGenerateSummary e s) = [] \<and>
        error (st (handleGenerateSummary e s)) = js ''Missing VITE_GEMINI_API_KEY in .env file.'') \<and>
     (\<forall>k r body. apiKey e = Some k \<and> k \<noteq> [] \<and>
        fetch e (endpoint @ k) (prompt (team_name t) (weekKey s) (weekEntries s)) = Resolved r \<and>
        \<not> response_ok r \<and> response_text r = Inr body \<longrightarrow>
        writes (handleGenerateSummary e s) = [] \<and>
        error (st (handleGenerateSummary e s)) = js ''AI request failed: '' @ body) \<and>
     (\<forall>k m. apiKey e = Some k \<and> k \<noteq> [] \<and>
        fetch e (endpoint @ k) (prompt (team_name t) (weekKey s) (weekEntries s)) = Rejected m \<longrightarrow>
        writes (handleGenerateSummary e s) = [] \<and>
        error (st (handleGenerateSummary e s)) = m)"
proof -
  have fail: "writes (handleGenerateSummary e s) = [] \<and> error (st (handleGenerateSummary e s)) = m"
    if "createAiSummary e (team_name t) (weekKey s) (weekEntries s) = Inl m" for m
    using assms that by (simp add: handleGenerateSummary_def Let_def)
  have fin: "\<not> loadingAi (st (handleGenerateSummary e s))"
    using assms by (simp add: handleGenerateSummary_def Let_def split: sum.splits)
  show ?thesis
    using fail fin handleGenerateSummary_catches [of e s]
      createAiSummary_failures [where e = e and tname = "team_name t" and wkey = "weekKey s"
        and us = "weekEntries s"]
    by (intro conjI allI impI) blast+
qed

theorem generateSummary_failure_isolation_witness:
  "handleGenerateSummary (sampleEnv (Inr (js ''d1'')) None (Rejected []))
      (sampleState (Some sampleTeam) [] (js ''2026-W09'') [] []) =
     \<lparr>st = (sampleState (Some sampleTeam) [] (js ''2026-W09'') [] [])
             \<lparr>error := js ''Missing VITE_GEMINI_API_KEY in .env file.''\<rparr>,
      writes = [], uncaught = None\<rparr> \<and>
   \<not> loadingAi (st (handleGenerateSummary
      (sampleEnv (Inr (js ''d1'')) (Some (js ''key''))
         (Resolved \<lparr>response_ok = True, response_text = Inr [], response_json = Inr (Some (js ''Wins: X''))\<rparr>))
      (sampleState (Some sampleTeam) [] (js ''2026-W09'') [] []))) \<and>
   writes (handleGenerateSummary
      (sampleEnv (Inr (js ''d1'')) (Some (js ''key''))
         (Resolved \<lparr>response_ok = True, response_text = Inr [], response_json = Inr (Some (js ''Wins: X''))\<rparr>))
      (sampleState (Some sampleTeam) [] (js ''2026-W09'') [] [])) =
     [([js ''teams'', js ''t1'', js ''summaries''],
       SummaryDoc (js ''2026-W09'') (js ''Wins: X'') serverTimestamp)]"
proof -
  let ?s = "sampleState (Some sampleTeam) [] (js ''2026-W09'') [] []"
  let ?e1 = "sampleEnv (Inr (js ''d1'')) None (Rejected [])"
  let ?e2 = "sampleEnv (Inr (js ''d1'')) (Some (js ''key''))
         (Resolved \<lparr>response_ok = True, response_text = Inr [], response_json = Inr (Some (js ''Wins: X''))\<rparr>)"
  have a: "activeTeam ?s = Some sampleTeam" by (simp add: sampleState_def)
  have w: "weekEntries ?s \<noteq> []"
    by (simp add: weekEntries_def sampleState_def sampleItem_def)
  have d1: "db ?e1" and d2: "db ?e2" by (simp_all add: sampleEnv_def)
  have k: "apiKey ?e1 = None" by (simp add: sampleEnv_def)
  note f = generateSummary_failure_isolation [OF a d1 w]
  note g = generateSummary_failure_isolation [OF a d2 w]
  have 1: "writes (handleGenerateSummary ?e1 ?s) = []"
      "error (st (handleGenerateSummary ?e1 ?s)) = js ''Missing VITE_GEMINI_API_KEY in .env file.''"
      "uncaught (handleGenerateSummary ?e1 ?s) = None"
      "\<not> loadingAi (st (handleGenerateSummary ?e1 ?s))"
    using f k by blast+
  have 2: "\<not> loadingAi (st (handleGenerateSummary ?e2 ?s))"
    using g by blast
  have 3: "st (handleGenerateSummary ?e1 ?s) = ?s\<lparr>error := js ''Missing VITE_GEMINI_API_KEY in .env file.''\<rparr>"
    by (simp add: handleGenerateSummary_def Let_def sample_defs weekEntries_def createAiSummary_def)
  have 4: "writes (handleGenerateSummary ?e2 ?s) =
     [([js ''teams'', js ''t1'', js ''summaries''],
       SummaryDoc (js ''2026-W09'') (js ''Wins: X'') serverTimestamp)]"
    by (simp add: handleGenerateSummary_def Let_def sample_defs weekEntries_def createAiSummary_def js_def)
  have 5: "handleGenerateSummary ?e1 ?s =
     \<lparr>st = st (handleGenerateSummary ?e1 ?s), writes = writes (handleGenerateSummary ?e1 ?s),
      uncaught = uncaught (handleGenerateSummary ?e1 ?s)\<rparr>"
    by simp
  show ?thesis
    using 1 2 3 4 5 by simp
qed

section \<open>Empty fields are refused before any write\<close>

text \<open>
  Claim C4, as amended. \<open>handleCreateTeam\<close> with a team name that is empty after
  trimming ends with the message "Team name is required." in the error slot, issues no
  \<open>addDoc\<close> request and changes nothing else. \<open>handleAddEntry\<close> with a member name
  or an update that is empty after trimming issues no \<open>addDoc\<close> request, lets nothing
  escape and changes nothing but the error slot. The message it leaves there is decided
  by the order of its guards: "Create a team first." when no team is active; else, when
  the store is not configured, the configuration error of the store module or, if that
  is empty, "Firebase is not configured."; else "Member name and update are required.".
\<close>

theorem validation_no_write:
  "(trim (teamName s) = [] \<longrightarrow>
      handleCreateTeam e s =
        \<lparr>st = s\<lparr>error := js ''Team name is required.''\<rparr>, writes = [], uncaught = None\<rparr>) \<and>
   (trim (memberName s) = [] \<or> trim (update s) = [] \<longrightarrow>
      handleAddEntry e s =
        \<lparr>st = s\<lparr>error :=
                 (if activeTeam s = None then js ''Create a team first.''
                  else if \<not> db e then
                    (if firebaseConfigError e \<noteq> [] then firebaseConfigError e
                     else js ''Firebase is not configured.'')
                  else js ''Member name and update are required.'')\<rparr>,
         writes = [], uncaught = None\<rparr>)"
  by (auto simp: handleCreateTeam_def handleAddEntry_def notConfigured_def Let_def
      split: option.splits)

theorem validation_no_write_witness:
  "trim (js ''   '') = [] \<and>
   handleCreateTeam (sampleEnv (Inr (js ''d1'')) None (Rejected []))
       (sampleState (Some sampleTeam) (js ''   '') (js ''2026-W09'') (js ''Ana'') (js '' '')) =
     \<lparr>st = sampleState (Some sampleTeam) (js ''   '') (js ''2026-W09'') (js ''Ana'') (js '' '')
             \<lparr>error := js ''Team name is required.''\<rparr>,
      writes = [], uncaught = None\<rparr> \<and>
   handleAddEntry (sampleEnv (Inr (js ''d1'')) None (Rejected []))
       (sampleState (Some sampleTeam) (js ''   '') (js ''2026-W09'') (js ''Ana'') (js '' '')) =
     \<lparr>st = sampleState (Some sampleTeam) (js ''   '') (js ''2026-W09'') (js ''Ana'') (js '' '')
             \<lparr>error := js ''Member name and update are required.''\<rparr>,
      writes = [], uncaught = None\<rparr> \<and>
   handleAddEntry (sampleEnv (Inr (js ''d1'')) None (Rejected []))
       (sampleState None (js ''Squad'') (js ''2026-W09'') (js ''Ana'') (js '' '')) =
     \<lparr>st = sampleState None (js ''Squad'') (js ''2026-W09'') (js ''Ana'') (js '' '')
             \<lparr>error := js ''Create a team first.''\<rparr>,
      writes = [], uncaught = None\<rparr> \<and>
   handleAddEntry
       ((sampleEnv (Inr (js ''d1'')) None (Rejected []))
          \<lparr>firebaseConfigError := js ''Missing Firebase environment variables: VITE_FIREBASE_APP_ID.'',
           db := False\<rparr>)
       (sampleState (Some sampleTeam) (js ''Squad'') (js ''2026-W09'') (js ''Ana'') (js '' '')) =
     \<lparr>st = sampleState (Some sampleTeam) (js ''Squad'') (js ''2026-W09'') (js ''Ana'') (js '' '')
             \<lparr>error := js ''Missing Firebase environment variables: VITE_FIREBASE_APP_ID.''\<rparr>,
      writes = [], uncaught = None\<rparr>"
proof -
  let ?e = "sampleEnv (Inr (js ''d1'')) None (Rejected [])"
  let ?e' = "?e\<lparr>firebaseConfigError := js ''Missing Firebase environment variables: VITE_FIREBASE_APP_ID.'',
           db := False\<rparr>"
  let ?s = "sampleState (Some sampleTeam) (js ''   '') (js ''2026-W09'') (js ''Ana'') (js '' '')"
  let ?s1 = "sampleState None (js ''Squad'') (js ''2026-W09'') (js ''Ana'') (js '' '')"
  let ?s2 = "sampleState (Some sampleTeam) (js ''Squad'') (js ''2026-W09'') (js ''Ana'') (js '' '')"
  have t: "trim (js ''   '') = []" "trim (js '' '') = []"
    by (simp_all add: trim_def js_def isWhiteSpace_def)
  have h: "trim (teamName ?s) = []" "trim (update ?s) = []" "activeTeam ?s \<noteq> None" "db ?e"
    by (simp_all add: sample_defs t)
  have h1: "trim (update ?s1) = []" "activeTeam ?s1 = None"
    by (simp_all add: sample_defs t)
  have h2: "trim (update ?s2) = []" "activeTeam ?s2 \<noteq> None" "\<not> db ?e'"
      "firebaseConfigError ?e' = js ''Missing Firebase environment variables: VITE_FIREBASE_APP_ID.''"
    by (simp_all add: sample_defs t)
  have n: "js ''Missing Firebase environment variables: VITE_FIREBASE_APP_ID.'' \<noteq> []"
    by (simp add: js_def)
  have a: "handleCreateTeam ?e ?s =
     \<lparr>st = ?s\<lparr>error := js ''Team name is required.''\<rparr>, writes = [], uncaught = None\<rparr>"
    using validation_no_write [of ?s ?e] h by blast
  have b: "handleAddEntry ?e ?s =
     \<lparr>st = ?s\<lparr>error := js ''Member name and update are required.''\<rparr>, writes = [], uncaught = None\<rparr>"
    using validation_no_write [of ?s ?e] h by simp
  have c: "handleAddEntry ?e ?s1 =
     \<lparr>st = ?s1\<lparr>error := js ''Create a team first.''\<rparr>, writes = [], uncaught = None\<rparr>"
    using validation_no_write [of ?s1 ?e] h1 by simp
  have d: "handleAddEntry ?e' ?s2 =
     \<lparr>st = ?s2\<lparr>error := js ''Missing Firebase environment variables: VITE_FIREBASE_APP_ID.''\<rparr>,
      writes = [], uncaught = None\<rparr>"
    using validation_no_write [of ?s2 ?e'] h2 n by simp
  show ?thesis
    using t(1) a b c d by blast
qed

text \<open>
  The claim as it was stated promises the validation message for every call of
  \<open>handleAddEntry\<close> with an empty member name. With no active team the handler stops
  at its first guard, and the message is "Create a team first.".
\<close>

theorem addEntry_validation_counterexample:
  "trim (memberName (sampleState None [] (js ''2026-W09'') [] (js ''Shipped X''))) = [] \<and>
   error (st (handleAddEntry (sampleEnv (Inr (js ''d1'')) None (Rejected []))
      (sampleState None [] (js ''2026-W09'') [] (js ''Shipped X'')))) = js ''Create a team first.'' \<and>
   error (st (handleAddEntry (sampleEnv (Inr (js ''d1'')) None (Rejected []))
      (sampleState None [] (js ''2026-W09'') [] (js ''Shipped X'')))) \<noteq>
     js ''Member name and update are required.''"
  by (simp add: handleAddEntry_def sample_defs Let_def trim_def js_def)

section \<open>Without an active team nothing is written\<close>

text \<open>
  Claim C5. \<open>handleAddEntry\<close> and \<open>handleGenerateSummary\<close>, run with no active
  team, end with the message "Create a team first." in the error slot, issue no
  \<open>addDoc\<close> request, let nothing escape and change nothing else, whatever the
  environment and the form fields are.
\<close>

theorem no_active_team_precondition:
  assumes "activeTeam s = None"
  shows "handleAddEntry e s =
           \<lparr>st = s\<lparr>error := js ''Create a team first.''\<rparr>, writes = [], uncaught = None\<rparr> \<and>
         handleGenerateSummary e s =
           \<lparr>st = s\<lparr>error := js ''Create a team first.''\<rparr>, writes = [], uncaught = None\<rparr>"
  using assms by (simp add: handleAddEntry_def handleGenerateSummary_def)

theorem no_active_team_precondition_witness:
  "activeTeam (sampleState None [] (js ''2026-W09'') (js ''Ana'') (js ''Shipped X'')) = None \<and>
   writes (handleAddEntry (sampleEnv (Inr (js ''d1'')) (Some (js ''key'')) (Rejected []))
      (sampleState None [] (js ''2026-W09'') (js ''Ana'') (js ''Shipped X''))) = [] \<and>
   error (st (handleAddEntry (sampleEnv (Inr (js ''d1'')) (Some (js ''key'')) (Rejected []))
      (sampleState None [] (js ''2026-W09'') (js ''Ana'') (js ''Shipped X'')))) =
     js ''Create a team first.'' \<and>
   writes (handleGenerateSummary (sampleEnv (Inr (js ''d1'')) (Some (js ''key'')) (Rejected []))
      (sampleState None [] (js ''2026-W09'') (js ''Ana'') (js ''Shipped X''))) = [] \<and>
   error (st (handleGenerateSummary (sampleEnv (Inr (js ''d1'')) (Some (js ''key'')) (Rejected []))
      (sampleState None [] (js ''2026-W09'') (js ''Ana'') (js ''Shipped X'')))) =
     js ''Create a team first.''"
proof -
  let ?s = "sampleState None [] (js ''2026-W09'') (js ''Ana'') (js ''Shipped X'')"
  have a: "activeTeam ?s = None"
    by (simp add: sampleState_def)
  show ?thesis
    using no_active_team_precondition [OF a, of "sampleEnv (Inr (js ''d1'')) (Some (js ''key'')) (Rejected [])"] a
    by simp
qed

section \<open>A saved entry clears the update field only\<close>

text \<open>
  Claim C8. When \<open>handleAddEntry\<close> succeeds (it issued its \<open>addDoc\<close> request and
  nothing escaped), the state after it is the state before it with the update field
  empty and the error slot empty: the update field is reset, the member name and the
  selected week key keep their values, and so does every other state variable.
\<close>

theorem addEntry_clears_only_update:
  assumes "uncaught (handleAddEntry e s) = None" and "writes (handleAddEntry e s) \<noteq> []"
  shows "st (handleAddEntry e s) = s\<lparr>update := [], error := []\<rparr> \<and>
         update (st (handleAddEntry e s)) = [] \<and>
         memberName (st (handleAddEntry e s)) = memberName s \<and>
         weekKey (st (handleAddEntry e s)) = weekKey s"
  using assms
  by (auto simp: handleAddEntry_def Let_def split: option.splits if_splits sum.splits)

theorem addEntry_clears_only_update_witness:
  "uncaught (handleAddEntry (sampleEnv (Inr (js ''d1'')) None (Rejected []))
      (sampleState (Some sampleTeam) [] (js ''2026-W09'') (js ''Ana'') (js ''Shipped X''))) = None \<and>
   writes (handleAddEntry (sampleEnv (Inr (js ''d1'')) None (Rejected []))
      (sampleState (Some sampleTeam) [] (js ''2026-W09'') (js ''Ana'') (js ''Shipped X''))) \<noteq> [] \<and>
   st (handleAddEntry (sampleEnv (Inr (js ''d1'')) None (Rejected []))
      (sampleState (Some sampleTeam) [] (js ''2026-W09'') (js ''Ana'') (js ''Shipped X''))) =
     \<lparr>teamName = [], activeTeam = Some sampleTeam, weekKey = js ''2026-W09'',
      memberName = js ''Ana'', update = [], entries = [sampleItem], summaries = [],
      loadingAi = False, error = []\<rparr>"
proof -
  let ?e = "sampleEnv (Inr (js ''d1'')) None (Rejected [])"
  let ?s = "sampleState (Some sampleTeam) [] (js ''2026-W09'') (js ''Ana'') (js ''Shipped X'')"
  have u: "uncaught (handleAddEntry ?e ?s) = None"
    by (simp add: handleAddEntry_def sample_defs Let_def trim_def js_def isWhiteSpace_def)
  have w: "writes (handleAddEntry ?e ?s) \<noteq> []"
    by (simp add: handleAddEntry_def sample_defs Let_def trim_def js_def isWhiteSpace_def)
  have "st (handleAddEntry ?e ?s) = ?s\<lparr>update := [], error := []\<rparr>"
    using addEntry_clears_only_update [OF u w] by blast
  then show ?thesis
    using u w by (simp add: sampleState_def)
qed

section \<open>Every handler starts from an empty error slot\<close>

text \<open>
  Claim C9. Each of the three handlers clears the error slot before any of its checks:
  its whole outcome is the same whatever message \<open>m\<close> the slot held before, so an
  earlier message never survives a new attempt, also one that fails. After a fully
  successful run the error slot is empty and nothing has escaped: for
  \<open>handleCreateTeam\<close> when the trimmed name is not empty, the store is configured and
  \<open>addDoc\<close> resolves; for \<open>handleAddEntry\<close> when a team is active, the store is
  configured, both trimmed fields are not empty and \<open>addDoc\<close> resolves; for
  \<open>handleGenerateSummary\<close> when a team is active, the store is configured, the week
  has entries, the model call returns a text and \<open>addDoc\<close> resolves. The same holds
  read from the outcome: whenever the one request a handler issued resolves, its error
  slot ends empty.
\<close>

theorem handlers_clear_error_first:
  "handleCreateTeam e (s\<lparr>error := m\<rparr>) = handleCreateTeam e s \<and>
   handleAddEntry e (s\<lparr>error := m\<rparr>) = handleAddEntry e s \<and>
   handleGenerateSummary e (s\<lparr>error := m\<rparr>) = handleGenerateSummary e s \<and>
   (\<forall>r. trim (teamName s) \<noteq> [] \<and> db e \<and>
        addDoc e [js ''teams''] (TeamDoc (trim (teamName s)) serverTimestamp) = Inr r \<longrightarrow>
      error (st (handleCreateTeam e s)) = [] \<and> uncaught (handleCreateTeam e s) = None) \<and>
   (\<forall>t r. activeTeam s = Some t \<and> db e \<and> trim (memberName s) \<noteq> [] \<and>
        trim (update s) \<noteq> [] \<and>
        addDoc e [js ''teams'', team_id t, js ''weeklyInputs'']
          (WeeklyInputDoc (trim (memberName s)) (trim (update s)) (weekKey s) serverTimestamp)
          = Inr r \<longrightarrow>
      error (st (handleAddEntry e s)) = [] \<and> uncaught (handleAddEntry e s) = None) \<and>
   (\<forall>t txt r. activeTeam s = Some t \<and> db e \<and> weekEntries s \<noteq> [] \<and>
        createAiSummary e (team_name t) (weekKey s) (weekEntries s) = Inr txt \<and>
        addDoc e [js ''teams'', team_id t, js ''summaries'']
          (SummaryDoc (weekKey s) txt serverTimestamp) = Inr r \<longrightarrow>
      error (st (handleGenerateSummary e s)) = [] \<and>
      uncaught (handleGenerateSummary e s) = None) \<and>
   (\<forall>p d r. writes (handleCreateTeam e s) = [(p, d)] \<and> addDoc e p d = Inr r \<longrightarrow>
      error (st (handleCreateTeam e s)) = []) \<and>
   (\<forall>p d r. writes (handleAddEntry e s) = [(p, d)] \<and> addDoc e p d = Inr r \<longrightarrow>
      error (st (handleAddEntry e s)) = []) \<and>
   (\<forall>p d r. writes (handleGenerateSummary e s) = [(p, d)] \<and> addDoc e p d = Inr r \<longrightarrow>
      error (st (handleGenerateSummary e s)) = [])"
proof -
  have 1: "handleCreateTeam e (s\<lparr>error := m\<rparr>) = handleCreateTeam e s"
    by (simp add: handleCreateTeam_def Let_def split: sum.splits)
  have 2: "handleAddEntry e (s\<lparr>error := m\<rparr>) = handleAddEntry e s"
    by (simp add: handleAddEntry_def Let_def split: option.splits sum.splits)
  have 3: "handleGenerateSummary e (s\<lparr>error := m\<rparr>) = handleGenerateSummary e s"
    by (simp add: handleGenerateSummary_def weekEntries_def Let_def
        split: option.splits sum.splits)
  have 4: "\<forall>r. trim (teamName s) \<noteq> [] \<and> db e \<and>
        addDoc e [js ''teams''] (TeamDoc (trim (teamName s)) serverTimestamp) = Inr r \<longrightarrow>
      error (st (handleCreateTeam e s)) = [] \<and> uncaught (handleCreateTeam e s) = None"
    by (simp add: handleCreateTeam_def Let_def)
  have 5: "\<forall>t r. activeTeam s = Some t \<and> db e \<and> trim (memberName s) \<noteq> [] \<and>
        trim (update s) \<noteq> [] \<and>
        addDoc e [js ''teams'', team_id t, js ''weeklyInputs'']
          (WeeklyInputDoc (trim (memberName s)) (trim (update s)) (weekKey s) serverTimestamp)
          = Inr r \<longrightarrow>
      error (st (handleAddEntry e s)) = [] \<and> uncaught (handleAddEntry e s) = None"
    by (simp add: handleAddEntry_def Let_def)
  have 6: "\<forall>t txt r. activeTeam s = Some t \<and> db e \<and> weekEntries s \<noteq> [] \<and>
        createAiSummary e (team_name t) (weekKey s) (weekEntries s) = Inr txt \<and>
        addDoc e [js ''teams'', team_id t, js ''summaries'']
          (SummaryDoc (weekKey s) txt serverTimestamp) = Inr r \<longrightarrow>
      error (st (handleGenerateSummary e s)) = [] \<and>
      uncaught (handleGenerateSummary e s) = None"
    by (simp add: handleGenerateSummary_def Let_def)
  have 7: "\<forall>p d r. writes (handleCreateTeam e s) = [(p, d)] \<and> addDoc e p d = Inr r \<longrightarrow>
      error (st (handleCreateTeam e s)) = []"
    by (auto simp: handleCreateTeam_def Let_def split: if_splits sum.splits)
  have 8: "\<forall>p d r. writes (handleAddEntry e s) = [(p, d)] \<and> addDoc e p d = Inr r \<longrightarrow>
      error (st (handleAddEntry e s)) = []"
    by (auto simp: handleAddEntry_def Let_def split: option.splits if_splits sum.splits)
  have 9: "\<forall>p d r. writes (handleGenerateSummary e s) = [(p, d)] \<and> addDoc e p d = Inr r \<longrightarrow>
      error (st (handleGenerateSummary e s)) = []"
    by (auto simp: handleGenerateSummary_def Let_def split: option.splits if_splits sum.splits)
  show ?thesis
    by (intro conjI) (fact 1, fact 2, fact 3, fact 4, fact 5, fact 6, fact 7, fact 8, fact 9)
qed

theorem handlers_clear_error_first_witness:
  "error (sampleState (Some sampleTeam) (js ''Squad'') (js ''2026-W09'') (js ''Ana'') (js ''Shipped X''))
     = js ''Old error.'' \<and>
   error (st (handleCreateTeam
      (sampleEnv (Inr (js ''d1'')) (Some (js ''key''))
         (Resolved \<lparr>response_ok = True, response_text = Inr [], response_json = Inr (Some (js ''Wins: X''))\<rparr>))
      (sampleState (Some sampleTeam) (js ''Squad'') (js ''2026-W09'') (js ''Ana'') (js ''Shipped X'')))) = [] \<and>
   error (st (handleAddEntry
      (sampleEnv (Inr (js ''d1'')) (Some (js ''key''))
         (Resolved \<lparr>response_ok = True, response_text = Inr [], response_json = Inr (Some (js ''Wins: X''))\<rparr>))
      (sampleState (Some sampleTeam) (js ''Squad'') (js ''2026-W09'') (js ''Ana'') (js ''Shipped X'')))) = [] \<and>
   error (st (handleGenerateSummary
      (sampleEnv (Inr (js ''d1'')) (Some (js ''key''))
         (Resolved \<lparr>response_ok = True, response_text = Inr [], response_json = Inr (Some (js ''Wins: X''))\<rparr>))
      (sampleState (Some sampleTeam) (js ''Squad'') (js ''2026-W09'') (js ''Ana'') (js ''Shipped X'')))) = [] \<and>
   error (st (handleAddEntry
      (sampleEnv (Inr (js ''d1'')) (Some (js ''key''))
         (Resolved \<lparr>response_ok = True, response_text = Inr [], response_json = Inr (Some (js ''Wins: X''))\<rparr>))
      ((sampleState (Some sampleTeam) (js ''Squad'') (js ''2026-W09'') (js ''Ana'') (js ''Shipped X''))
         \<lparr>update := [], error := js ''Team name is required.''\<rparr>))) =
     js ''Member name and update are required.''"
proof -
  let ?e = "sampleEnv (Inr (js ''d1'')) (Some (js ''key''))
         (Resolved \<lparr>response_ok = True, response_text = Inr [], response_json = Inr (Some (js ''Wins: X''))\<rparr>)"
  let ?s = "sampleState (Some sampleTeam) (js ''Squad'') (js ''2026-W09'') (js ''Ana'') (js ''Shipped X'')"
  have t: "trim (js ''Squad'') = js ''Squad''" "trim (js ''Ana'') = js ''Ana''"
      "trim (js ''Shipped X'') = js ''Shipped X''"
    by (simp_all add: trim_def js_def isWhiteSpace_def)
  have n: "js ''Squad'' \<noteq> []" "js ''Ana'' \<noteq> []" "js ''Shipped X'' \<noteq> []" "js ''key'' \<noteq> []"
    by (simp_all add: js_def)
  have f: "trim (teamName ?s) \<noteq> []" "trim (memberName ?s) \<noteq> []" "trim (update ?s) \<noteq> []"
      "activeTeam ?s = Some sampleTeam"
    by (simp_all add: sampleState_def t n)
  have e: "db ?e" "addDoc ?e p d = Inr (js ''d1'')" for p d
    by (simp_all add: sampleEnv_def)
  have w: "weekEntries ?s \<noteq> []"
    by (simp add: weekEntries_def sampleState_def sampleItem_def)
  have c: "createAiSummary ?e (team_name sampleTeam) (weekKey ?s) (weekEntries ?s) = Inr (js ''Wins: X'')"
    by (simp add: createAiSummary_def sampleEnv_def n)
  note th = handlers_clear_error_first [where e = ?e and s = ?s
      and m = "js ''Team name is required.''"]
  note c4 = th [THEN conjunct2, THEN conjunct2, THEN conjunct2, THEN conjunct1, rule_format]
  note c5 = th [THEN conjunct2, THEN conjunct2, THEN conjunct2, THEN conjunct2,
      THEN conjunct1, rule_format]
  note c6 = th [THEN conjunct2, THEN conjunct2, THEN conjunct2, THEN conjunct2,
      THEN conjunct2, THEN conjunct1, rule_format]
  have 1: "error (st (handleCreateTeam ?e ?s)) = []"
    using c4 [of "js ''d1''"] f(1) e by simp
  have 2: "error (st (handleAddEntry ?e ?s)) = []"
    using c5 [of sampleTeam "js ''d1''"] f e by simp
  have 3: "error (st (handleGenerateSummary ?e ?s)) = []"
    using c6 [of sampleTeam "js ''Wins: X''" "js ''d1''"] f(4) e w c by simp
  have "handleAddEntry ?e (?s\<lparr>update := [], error := js ''Team name is required.''\<rparr>) =
      handleAddEntry ?e (?s\<lparr>update := []\<rparr>)"
    by (rule handlers_clear_error_first [where e = ?e and s = "?s\<lparr>update := []\<rparr>"
      and m = "js ''Team name is required.''", THEN conjunct2, THEN conjunct1])
  moreover have "error (st (handleAddEntry ?e (?s\<lparr>update := []\<rparr>))) =
      js ''Member name and update are required.''"
    by (simp add: handleAddEntry_def sample_defs Let_def trim_Nil)
  ultimately have 4: "error (st (handleAddEntry ?e
      (?s\<lparr>update := [], error := js ''Team name is required.''\<rparr>))) =
      js ''Member name and update are required.''"
    by simp
  show ?thesis
    using 1 2 3 4 by (simp add: sampleState_def)
qed

section \<open>Written fields are trimmed, the week key is not\<close>

text \<open>
  Claim C10. When \<open>handleCreateTeam\<close> passes its checks, its one \<open>addDoc\<close> request
  goes to the collection teams and carries the trimmed team name, and when the request
  resolves the active team gets the new identifier and that trimmed name. When
  \<open>handleAddEntry\<close> passes its checks, its one request goes to the team's collection
  weeklyInputs and carries the trimmed member name, the trimmed update and the week key
  exactly as the state holds it, which may be any string.
\<close>

theorem writes_carry_trimmed_fields:
  "(trim (teamName s) \<noteq> [] \<and> db e \<longrightarrow>
      writes (handleCreateTeam e s) =
        [([js ''teams''], TeamDoc (trim (teamName s)) serverTimestamp)] \<and>
      (\<forall>r. addDoc e [js ''teams''] (TeamDoc (trim (teamName s)) serverTimestamp) = Inr r \<longrightarrow>
         activeTeam (st (handleCreateTeam e s)) =
           Some \<lparr>team_id = r, team_name = trim (teamName s)\<rparr>)) \<and>
   (activeTeam s = Some t \<and> db e \<and> trim (memberName s) \<noteq> [] \<and> trim (update s) \<noteq> [] \<longrightarrow>
      writes (handleAddEntry e s) =
        [([js ''teams'', team_id t, js ''weeklyInputs''],
          WeeklyInputDoc (trim (memberName s)) (trim (update s)) (weekKey s) serverTimestamp)])"
  by (auto simp: handleCreateTeam_def handleAddEntry_def Let_def split: sum.splits)

theorem writes_carry_trimmed_fields_witness:
  "writes (handleCreateTeam (sampleEnv (Inr (js ''t1'')) None (Rejected []))
      (sampleState (Some sampleTeam) (js ''  Product Squad '') (js '' next week! '')
         (js '' Ana '') (js ''  Shipped X  ''))) =
     [([js ''teams''], TeamDoc (js ''Product Squad'') serverTimestamp)] \<and>
   activeTeam (st (handleCreateTeam (sampleEnv (Inr (js ''t1'')) None (Rejected []))
      (sampleState (Some sampleTeam) (js ''  Product Squad '') (js '' next week! '')
         (js '' Ana '') (js ''  Shipped X  '')))) =
     Some \<lparr>team_id = js ''t1'', team_name = js ''Product Squad''\<rparr> \<and>
   writes (handleAddEntry (sampleEnv (Inr (js ''t1'')) None (Rejected []))
      (sampleState (Some sampleTeam) (js ''  Product Squad '') (js '' next week! '')
         (js '' Ana '') (js ''  Shipped X  ''))) =
     [([js ''teams'', js ''t1'', js ''weeklyInputs''],
       WeeklyInputDoc (js ''Ana'') (js ''Shipped X'') (js '' next week! '') serverTimestamp)]"
proof -
  let ?e = "sampleEnv (Inr (js ''t1'')) None (Rejected [])"
  let ?s = "sampleState (Some sampleTeam) (js ''  Product Squad '') (js '' next week! '')
         (js '' Ana '') (js ''  Shipped X  '')"
  have t: "trim (js ''  Product Squad '') = js ''Product Squad''"
      "trim (js '' Ana '') = js ''Ana''" "trim (js ''  Shipped X  '') = js ''Shipped X''"
    by (simp_all add: trim_def js_def isWhiteSpace_def)
  have n: "js ''Product Squad'' \<noteq> []" "js ''Ana'' \<noteq> []" "js ''Shipped X'' \<noteq> []"
    by (simp_all add: js_def)
  have f: "teamName ?s = js ''  Product Squad ''" "memberName ?s = js '' Ana ''"
      "update ?s = js ''  Shipped X  ''" "weekKey ?s = js '' next week! ''"
      "activeTeam ?s = Some sampleTeam" "team_id sampleTeam = js ''t1''"
    by (simp_all add: sampleState_def sampleTeam_def)
  have e: "db ?e" "addDoc ?e p d = Inr (js ''t1'')" for p d
    by (simp_all add: sampleEnv_def)
  show ?thesis
    using writes_carry_trimmed_fields [of ?s ?e sampleTeam] t n f e
    by simp
qed

end
